theory Spec2Isabelle
  imports Main "HOL-Library.Sublist" "HOL-Library.AList"
begin

section \<open>Errors as values\<close>

text \<open>
  Every Go \<open>error\<close> the package creates, wraps or inspects is a value of \<open>go_error\<close>.
  The first four constructors are the wrappers that \<open>IsConnectionReset\<close> peels off
  (\<open>*url.Error\<close>, \<open>*net.OpError\<close>, \<open>*os.SyscallError\<close>, \<open>syscall.Errno\<close>); the others
  are the errors built with \<open>fmt.Errorf\<close> in request.go, the package's own
  \<open>*StatusError\<close>, and \<open>OtherError\<close> for any error of a library.
\<close>

datatype go_error =
    UrlError go_error
  | OpError go_error
  | SyscallError go_error
  | Errno nat
  | Http2StreamError string
  | StatusError string
  | ZeroLengthResponse
  | UnknownBodyType
  | StreamReadError go_error
  | UnexpectedReadError go_error
  | StreamStatusError int string
  | OtherError string

text \<open>\<open>syscall.ECONNRESET\<close>, with its value on Linux.\<close>

definition ECONNRESET :: nat where
  "ECONNRESET = 104"

text \<open>
  \<open>IsConnectionReset\<close> (request.go, lines 538-552): each type assertion peels at most one
  wrapper, in this order.
\<close>

definition IsConnectionReset :: "go_error \<Rightarrow> bool" where
  "IsConnectionReset err0 =
     (let err1 = (case err0 of UrlError e \<Rightarrow> e | _ \<Rightarrow> err0);
          err2 = (case err1 of OpError e \<Rightarrow> e | _ \<Rightarrow> err1);
          err3 = (case err2 of SyscallError e \<Rightarrow> e | _ \<Rightarrow> err2)
      in (case err3 of Errno n \<Rightarrow> n = ECONNRESET | _ \<Rightarrow> False))"

section \<open>Library data: multi-valued maps, URLs, readers, HTTP messages\<close>

text \<open>
  \<open>url.Values\<close> and \<open>http.Header\<close> are Go maps from a key to a list of values. They are
  association lists here; reading a missing key gives the empty list, as indexing a Go map
  gives the nil slice. A nil map and an empty map are both \<open>[]\<close>: the package only
  distinguishes them to allocate before the first write.
\<close>

type_synonym Values = "(string \<times> string list) list"

definition vals :: "Values \<Rightarrow> string \<Rightarrow> string list" where
  "vals m k = (case map_of m k of None \<Rightarrow> [] | Some vs \<Rightarrow> vs)"

definition Values_Add :: "Values \<Rightarrow> string \<Rightarrow> string \<Rightarrow> Values" where
  "Values_Add m k v = AList.update k (vals m k @ [v]) m"

definition Values_Set :: "Values \<Rightarrow> string \<Rightarrow> string \<Rightarrow> Values" where
  "Values_Set m k v = AList.update k [v] m"

definition Values_Del :: "Values \<Rightarrow> string \<Rightarrow> Values" where
  "Values_Del m k = AList.delete k m"

definition Values_Get :: "Values \<Rightarrow> string \<Rightarrow> string" where
  "Values_Get m k = (case vals m k of [] \<Rightarrow> [] | v # _ \<Rightarrow> v)"

text \<open>
  \<open>url.URL\<close>, with the fields the package reads or writes. \<open>RawQuery\<close> holds the query
  as the \<open>url.Values\<close> that \<open>Encode\<close> serialises and \<open>Query()\<close> parses back.
\<close>

record URL =
  Scheme :: string
  Host :: string
  Path :: string
  RawQuery :: Values

definition URL_zero :: URL where
  "URL_zero = \<lparr>Scheme = [], Host = [], Path = [], RawQuery = []\<rparr>"

text \<open>
  An \<open>io.Reader\<close> used as request body: its bytes, the read position, and whether the
  dynamic type also implements \<open>io.Seeker\<close> (and if so whether \<open>Seek(0, 0)\<close> succeeds).
  A \<open>*bytes.Reader\<close> is \<open>SeekOk\<close>.
\<close>

datatype seek_cap = NoSeeker | SeekOk | SeekFails go_error

record reader =
  data :: string
  pos :: nat
  seek :: seek_cap

definition bytes_NewReader :: "string \<Rightarrow> reader" where
  "bytes_NewReader d = \<lparr>data = d, pos = 0, seek = SeekOk\<rparr>"

definition remaining :: "reader \<Rightarrow> string" where
  "remaining b = drop (pos b) (data b)"

definition drained :: "reader \<Rightarrow> reader" where
  "drained b = b\<lparr>pos := length (data b)\<rparr>"

text \<open>
  \<open>*http.Client\<close> as far as \<open>NewRequest\<close> configures it: the TLS switch and the dialer's
  two durations (nanoseconds). \<open>context.Context\<close> is an opaque handle.
\<close>

record http_Client =
  InsecureSkipVerify :: bool
  DialTimeout :: int
  KeepAlive :: int

type_synonym go_context = nat

text \<open>
  \<open>*http.Request\<close> as sent: the body field holds the bytes the transport reads from the
  body reader (what is left of it at that moment).
\<close>

record http_Request =
  req_Method :: string
  req_URL :: URL
  req_Header :: Values
  req_Body :: "string option"
  req_ctx :: "go_context option"

text \<open>
  \<open>*http.Response\<close>. \<open>resp_Body\<close> is \<open>None\<close> for a nil body, otherwise what reading the
  body to its end delivers: the bytes, and the read error if the stream breaks.
\<close>

record http_Response =
  resp_StatusCode :: int
  resp_Header :: Values
  resp_Body :: "(string \<times> go_error option) option"

text \<open>One call of \<open>client.Do\<close>: the n-th call of an execution, the request sent.\<close>

type_synonym transport = "nat \<Rightarrow> http_Request \<Rightarrow> go_error + http_Response"

section \<open>The standard library and the file system, as parameters\<close>

text \<open>
  The functions of Go's standard library that request.go calls and whose code is not part
  of the package are fields of an environment. Every theorem below holds for every
  environment.
\<close>

record env =
  url_Parse :: "string \<Rightarrow> go_error + URL"
  path_Join :: "string list \<Rightarrow> string"
  mime_ParseMediaType :: "string \<Rightarrow> go_error + string"
  Duration_String :: "int \<Rightarrow> string"
  ioutil_ReadFile :: "string \<Rightarrow> go_error + string"
  http_NewRequest :: "string \<Rightarrow> URL \<Rightarrow> go_error option"
  strings_ToUpper :: "string \<Rightarrow> string"
  strings_TrimSpace :: "string \<Rightarrow> string"
  strconv_Atoi :: "string \<Rightarrow> int option"
  CanonicalHeaderKey :: "string \<Rightarrow> string"

text \<open>\<open>http.Header\<close>'s methods put the key in canonical form first.\<close>

definition Header_Get :: "env \<Rightarrow> Values \<Rightarrow> string \<Rightarrow> string" where
  "Header_Get E h k = Values_Get h (CanonicalHeaderKey E k)"

definition Header_Add :: "env \<Rightarrow> Values \<Rightarrow> string \<Rightarrow> string \<Rightarrow> Values" where
  "Header_Add E h k v = Values_Add h (CanonicalHeaderKey E k) v"

definition Header_Del :: "env \<Rightarrow> Values \<Rightarrow> string \<Rightarrow> Values" where
  "Header_Del E h k = Values_Del h (CanonicalHeaderKey E k)"

text \<open>\<open>strings.Index\<close>: the index of the first occurrence, or -1.\<close>

fun Index :: "string \<Rightarrow> string \<Rightarrow> int" where
  "Index [] sub = (if sub = [] then 0 else - 1)"
| "Index (c # cs) sub =
     (if prefix sub (c # cs) then 0
      else (let i = Index cs sub in if i = - 1 then - 1 else i + 1))"

text \<open>\<open>%d\<close> of \<open>fmt.Sprintf\<close>: decimal digits, with a minus sign below zero.\<close>

fun utoa :: "nat \<Rightarrow> string" where
  "utoa n = (if n < 10 then [''0123456789'' ! n]
             else utoa (n div 10) @ [''0123456789'' ! (n mod 10)])"

declare utoa.simps [simp del]

definition itoa :: "int \<Rightarrow> string" where
  "itoa i = (if i < 0 then CHR ''-'' # utoa (nat (- i)) else utoa (nat i))"

section \<open>The package's data model\<close>

text \<open>
  \<open>Result\<close> (request.go, lines 51-60). \<open>cookies\<close> holds the \<open>Set-Cookie\<close> header lines
  that \<open>resp.Cookies()\<close> parses. The \<open>decoder\<close> field is left out: it is \<open>NewDecode()\<close>
  in every Result that \<open>transformResponse\<close> builds without a read error, and \<open>Into\<close>
  returns before using it in every other Result.
\<close>

record Result =
  body :: string
  contentType :: string
  err :: "go_error option"
  statusCode :: int
  headers :: Values
  cookies :: "string list"

text \<open>
  \<open>Request\<close> (request.go, lines 30-49). A nil pointer or nil interface is \<open>None\<close>.
  The field \<open>method\<close> is never read or written by the package.
\<close>

record Request =
  client :: "http_Client option"
  verb :: string
  baseURL :: "URL option"
  method_ :: string
  pathPrefix :: string
  subpath :: string
  params :: Values
  headers :: Values
  timeout :: int
  err :: "go_error option"
  body :: "reader option"
  ctx :: "go_context option"

section \<open>Construction and configuration\<close>

definition Second :: int where
  "Second = 1000000000"

definition NewRequest :: "env \<Rightarrow> string \<Rightarrow> string \<Rightarrow> Request" where
  "NewRequest E baseUrl verb0 =
     (let isHttps = (Index baseUrl ''https'' \<noteq> - 1);
          reparsed = (case url_Parse E ((if isHttps then ''https://'' else ''http://'') @ baseUrl) of
                        Inl e \<Rightarrow> None | Inr u \<Rightarrow> Some u);
          hostURL = (case url_Parse E baseUrl of
                       Inl e \<Rightarrow> reparsed
                     | Inr u \<Rightarrow> if Scheme u = [] \<or> Host u = [] then reparsed else Some u);
          pathPrefix0 = (case hostURL of
                           None \<Rightarrow> ''/''
                         | Some u \<Rightarrow> path_Join E [''/'', Path u])
      in \<lparr>client = Some \<lparr>InsecureSkipVerify = isHttps,
                          DialTimeout = 30 * Second, KeepAlive = 30 * Second\<rparr>,
          verb = strings_ToUpper E verb0,
          baseURL = hostURL,
          method_ = [],
          pathPrefix = pathPrefix0,
          subpath = [],
          params = [],
          headers = [],
          timeout = 0,
          err = None,
          body = None,
          ctx = None\<rparr>)"

definition HttpClient :: "http_Client option \<Rightarrow> Request \<Rightarrow> Request" where
  "HttpClient c r = r\<lparr>client := c\<rparr>"

definition Header :: "env \<Rightarrow> string \<Rightarrow> string list \<Rightarrow> Request \<Rightarrow> Request" where
  "Header E key values r =
     r\<lparr>headers := fold (\<lambda>value h. Header_Add E h key value) values
                       (Header_Del E (headers r) key)\<rparr>"

definition Timeout :: "int \<Rightarrow> Request \<Rightarrow> Request" where
  "Timeout d r = (if err r \<noteq> None then r else r\<lparr>timeout := d\<rparr>)"

definition Context :: "go_context option \<Rightarrow> Request \<Rightarrow> Request" where
  "Context c r = r\<lparr>ctx := c\<rparr>"

definition Prefix :: "env \<Rightarrow> string list \<Rightarrow> Request \<Rightarrow> Request" where
  "Prefix E segments r =
     (if err r \<noteq> None then r
      else r\<lparr>pathPrefix := path_Join E [pathPrefix r, path_Join E segments]\<rparr>)"

definition Suffix :: "env \<Rightarrow> string list \<Rightarrow> Request \<Rightarrow> Request" where
  "Suffix E segments r =
     (if err r \<noteq> None then r
      else r\<lparr>subpath := path_Join E [subpath r, path_Join E segments]\<rparr>)"

text \<open>
  \<open>AbsPath\<close> dereferences \<open>r.baseURL\<close>, which \<open>NewRequest\<close> leaves nil when the base
  address parses neither way: the nil dereference panics, and the model returns \<open>None\<close>.
\<close>

definition AbsPath :: "env \<Rightarrow> string list \<Rightarrow> Request \<Rightarrow> Request option" where
  "AbsPath E segments r =
     (if err r \<noteq> None then Some r
      else (case baseURL r of
              None \<Rightarrow> None
            | Some u \<Rightarrow>
                (let p = path_Join E [Path u, path_Join E segments];
                     keep = (case segments of
                               [s] \<Rightarrow> (length (Path u) > 1 \<or> length s > 1) \<and> suffix ''/'' s
                             | _ \<Rightarrow> False)
                 in Some (r\<lparr>pathPrefix := (if keep then p @ ''/'' else p)\<rparr>))))"

definition RequestURI :: "env \<Rightarrow> string \<Rightarrow> Request \<Rightarrow> Request" where
  "RequestURI E uri r =
     (if err r \<noteq> None then r
      else (case url_Parse E uri of
              Inl e \<Rightarrow> r\<lparr>err := Some e\<rparr>
            | Inr locator \<Rightarrow>
                (let r1 = r\<lparr>pathPrefix := Path locator\<rparr>
                 in if length (RawQuery locator) > 0
                    then r1\<lparr>params := fold (\<lambda>(k, v) p. AList.update k v p)
                                          (RawQuery locator) (params r)\<rparr>
                    else r1)))"

definition setParam :: "string \<Rightarrow> string \<Rightarrow> Request \<Rightarrow> Request" where
  "setParam paramName value r = r\<lparr>params := Values_Add (params r) paramName value\<rparr>"

definition Param :: "string \<Rightarrow> string \<Rightarrow> Request \<Rightarrow> Request" where
  "Param paramName s r = (if err r \<noteq> None then r else setParam paramName s r)"

text \<open>The dynamic type of the argument of \<open>Body\<close>, as its type switch sees it.\<close>

datatype body_arg = FilePath string | Bytes string | Reader reader | OtherValue

definition Body :: "env \<Rightarrow> body_arg \<Rightarrow> Request \<Rightarrow> Request" where
  "Body E obj r =
     (if err r \<noteq> None then r
      else (case obj of
              FilePath t \<Rightarrow>
                (case ioutil_ReadFile E t of
                   Inl e \<Rightarrow> r\<lparr>err := Some e\<rparr>
                 | Inr d \<Rightarrow> r\<lparr>body := Some (bytes_NewReader d)\<rparr>)
            | Bytes t \<Rightarrow> r\<lparr>body := Some (bytes_NewReader t)\<rparr>
            | Reader t \<Rightarrow> r\<lparr>body := Some t\<rparr>
            | OtherValue \<Rightarrow> r\<lparr>err := Some UnknownBodyType\<rparr>))"

section \<open>URL composition\<close>

definition URL :: "env \<Rightarrow> Request \<Rightarrow> URL" where
  "URL E r =
     (let finalURL = (case baseURL r of None \<Rightarrow> URL_zero | Some u \<Rightarrow> u)\<lparr>Path := pathPrefix r\<rparr>;
          query = fold (\<lambda>(key, values) q. fold (\<lambda>value q'. Values_Add q' key value) values q)
                    (params r) [];
          query1 = (if timeout r \<noteq> 0
                    then Values_Set query ''timeout'' (Duration_String E (timeout r))
                    else query)
      in finalURL\<lparr>RawQuery := query1\<rparr>)"

section \<open>Response classification\<close>

definition StatusOK :: int where
  "StatusOK = 200"

definition StatusPartialContent :: int where
  "StatusPartialContent = 206"

definition StatusSwitchingProtocols :: int where
  "StatusSwitchingProtocols = 101"

definition maxUnstructuredResponseTextBytes :: nat where
  "maxUnstructuredResponseTextBytes = 2048"

definition retryAfterSeconds :: "env \<Rightarrow> http_Response \<Rightarrow> int \<times> bool" where
  "retryAfterSeconds E resp =
     (let h = Header_Get E (resp_Header resp) ''Retry-After''
      in if length h > 0
         then (case strconv_Atoi E h of Some i \<Rightarrow> (i, True) | None \<Rightarrow> (0, False))
         else (0, False))"

definition checkWait :: "env \<Rightarrow> http_Response \<Rightarrow> int \<times> bool" where
  "checkWait E resp =
     (let r = resp_StatusCode resp
      in if r = 429 \<or> r \<ge> 500 then retryAfterSeconds E resp else (0, False))"

definition isTextResponse :: "env \<Rightarrow> http_Response \<Rightarrow> bool" where
  "isTextResponse E resp =
     (let contentType = Header_Get E (resp_Header resp) ''Content-Type''
      in if length contentType = 0 then True
         else (case mime_ParseMediaType E contentType of
                 Inl e \<Rightarrow> False
               | Inr media \<Rightarrow> prefix ''text/'' media))"

definition NewGenericServerResponse :: "int \<Rightarrow> string \<Rightarrow> go_error" where
  "NewGenericServerResponse code serverMessage =
     StatusError
       (if code = 409 then ''the server reported a conflict''
        else if code = 404 then ''the server could not find the requested resource''
        else if code = 400 then ''the server rejected our request for an unknown reason''
        else if code = 401 then ''the server has asked for the client to provide credentials''
        else if code = 403 then serverMessage
        else if code = 406 then serverMessage
        else if code = 415 then serverMessage
        else if code = 405 then ''the server does not allow this method on the requested resource''
        else if code = 422 then ''the server rejected our request due to an error in our request''
        else if code = 503 then ''the server is currently unable to handle the request''
        else if code = 504 then ''the server was unable to return a response in the time allotted, but may still be processing the request''
        else if code = 429 then ''the server has received too many requests and has asked us to try again later''
        else if code \<ge> 500
          then ''an error on the server ('' @ itoa code @ '') has prevented the request from succeeding''
        else ''the server responded with the status code '' @ itoa code
               @ '' but did not return more information'')"

definition newUnstructuredResponseError ::
  "env \<Rightarrow> string \<Rightarrow> bool \<Rightarrow> int \<Rightarrow> string \<Rightarrow> int \<Rightarrow> go_error" where
  "newUnstructuredResponseError E body0 isText statusCode0 method0 retryAfter =
     (let body1 = (if length body0 > maxUnstructuredResponseTextBytes
                   then take maxUnstructuredResponseTextBytes body0 else body0);
          message = (if isText then strings_TrimSpace E body1 else ''unknown'')
      in NewGenericServerResponse statusCode0 message)"

text \<open>
  The local \<open>body\<close> of \<open>transformResponse\<close> is \<open>None\<close> while it is the nil slice. Reading
  through an \<open>io.LimitedReader\<close> of 2048 bytes ends without error when the stream delivers
  that many bytes before it breaks.
\<close>

definition transformUnstructuredResponseError ::
  "env \<Rightarrow> http_Response \<Rightarrow> http_Request \<Rightarrow> string option \<Rightarrow> go_error" where
  "transformUnstructuredResponseError E resp req body0 =
     (let body1 = (if body0 = None \<and> resp_Body resp \<noteq> None
                   then (case resp_Body resp of
                           Some (d, rerr) \<Rightarrow>
                             if rerr = None \<or> length d \<ge> maxUnstructuredResponseTextBytes
                             then Some (take maxUnstructuredResponseTextBytes d) else body0
                         | None \<Rightarrow> body0)
                   else body0);
          retryAfter = fst (retryAfterSeconds E resp)
      in newUnstructuredResponseError E (case body1 of None \<Rightarrow> [] | Some b \<Rightarrow> b)
           (isTextResponse E resp) (resp_StatusCode resp) (req_Method req) retryAfter)"

definition Result_zero :: Result where
  "Result_zero = \<lparr>Result.body = [], contentType = [], Result.err = None, statusCode = 0,
                  Result.headers = [], cookies = []\<rparr>"

definition transformResponse :: "env \<Rightarrow> http_Response \<Rightarrow> http_Request \<Rightarrow> Result" where
  "transformResponse E resp req =
     (case (case resp_Body resp of
              None \<Rightarrow> Inr None
            | Some (d, None) \<Rightarrow> Inr (Some d)
            | Some (d, Some (Http2StreamError s)) \<Rightarrow> Inl (StreamReadError (Http2StreamError s))
            | Some (d, Some e) \<Rightarrow> Inl (UnexpectedReadError e)) of
        Inl e \<Rightarrow> Result_zero\<lparr>Result.err := Some e\<rparr>
      | Inr body0 \<Rightarrow>
          (let res = \<lparr>Result.body = (case body0 of None \<Rightarrow> [] | Some b \<Rightarrow> b),
                      contentType = Header_Get E (resp_Header resp) ''Content-Type'',
                      Result.err = None,
                      statusCode = resp_StatusCode resp,
                      Result.headers = resp_Header resp,
                      cookies = vals (resp_Header resp) ''Set-Cookie''\<rparr>
           in if resp_StatusCode resp = StatusSwitchingProtocols then res
              else if resp_StatusCode resp < StatusOK \<or> resp_StatusCode resp > StatusPartialContent
                then res\<lparr>Result.err := Some (transformUnstructuredResponseError E resp req body0)\<rparr>
              else res))"

section \<open>Result accessors and decoding\<close>

definition Raw :: "Result \<Rightarrow> string \<times> go_error option" where
  "Raw r = (Result.body r, Result.err r)"

definition Error :: "Result \<Rightarrow> go_error option" where
  "Error r = (if Result.err r = None \<or> length (Result.body r) = 0 then Result.err r
              else Result.err r)"

text \<open>
  The three unmarshallers are library code: each takes the bytes and the target and gives
  the target as it leaves it, with the error if any.
\<close>

record 't codecs =
  json_Unmarshal :: "string \<Rightarrow> 't \<Rightarrow> 't \<times> go_error option"
  yaml_Unmarshal :: "string \<Rightarrow> 't \<Rightarrow> 't \<times> go_error option"
  xml_Unmarshal :: "string \<Rightarrow> 't \<Rightarrow> 't \<times> go_error option"

definition Decode :: "'t codecs \<Rightarrow> string \<Rightarrow> string \<Rightarrow> 't \<Rightarrow> 't \<times> go_error option" where
  "Decode C d mediaType into =
     (if mediaType = ''application/json'' then json_Unmarshal C d into
      else if mediaType = ''application/yaml'' then yaml_Unmarshal C d into
      else if mediaType = ''application/xml'' \<or> mediaType = ''text/xml'' then xml_Unmarshal C d into
      else (into, None))"

text \<open>
  \<open>Into\<close> gives the target as it leaves it and the error it returns. After \<open>Decode\<close> both
  branches of its last \<open>if\<close> return the decoder's error (nil when there is none).
\<close>

definition Into :: "env \<Rightarrow> 't codecs \<Rightarrow> Result \<Rightarrow> 't \<Rightarrow> 't \<times> go_error option" where
  "Into E C r obj =
     (if Result.err r \<noteq> None then (obj, Error r)
      else if length (Result.body r) = 0 then (obj, Some ZeroLengthResponse)
      else (case mime_ParseMediaType E (contentType r) of
              Inl e \<Rightarrow> (obj, Some e)
            | Inr mediaType \<Rightarrow> Decode C (Result.body r) mediaType obj))"

section \<open>Execution\<close>

definition maxRetries :: nat where
  "maxRetries = 10"

definition placeholder :: http_Response where
  "placeholder = \<lparr>resp_StatusCode = 500, resp_Header = [(''Retry-After'', [''1''])],
                  resp_Body = Some ([], None)\<rparr>"

definition build_request :: "env \<Rightarrow> Request \<Rightarrow> http_Request" where
  "build_request E r = \<lparr>req_Method = verb r, req_URL = URL E r, req_Header = headers r,
                        req_Body = map_option remaining (body r), req_ctx = ctx r\<rparr>"

text \<open>
  The loop of \<open>request\<close>. Its state is the request (whose body reader moves), the counter
  \<open>retries\<close> and the requests sent so far; it ends with those requests and either the
  error returned or the request and response handed to the callback \<open>fn\<close>. Sending reads
  the body reader to its end. The deferred draining and closing of the response body
  happens after \<open>fn\<close> and changes nothing that is returned. Which client performs the
  call (the configured one, or \<open>http.DefaultClient\<close> when it is nil) is part of the
  transport.
\<close>

function request_loop ::
  "env \<Rightarrow> transport \<Rightarrow> Request \<Rightarrow> nat \<Rightarrow> http_Request list
     \<Rightarrow> http_Request list \<times> (go_error + http_Request \<times> http_Response)" where
  "request_loop E T r retries sent =
     (case http_NewRequest E (verb r) (URL E r) of
        Some e \<Rightarrow> (sent, Inl e)
      | None \<Rightarrow>
          (let req = build_request E r;
               r1 = r\<lparr>body := map_option drained (body r)\<rparr>;
               sent1 = sent @ [req]
           in (case (case T (length sent) req of
                       Inl e \<Rightarrow> if \<not> IsConnectionReset e \<or> verb r \<noteq> ''GET''
                                then Inl e else Inr placeholder
                     | Inr resp \<Rightarrow> Inr resp) of
                 Inl e \<Rightarrow> (sent1, Inl e)
               | Inr resp \<Rightarrow>
                   (if snd (checkWait E resp) \<and> Suc retries < maxRetries
                    then (case body r1 of
                            None \<Rightarrow> request_loop E T r1 (Suc retries) sent1
                          | Some b \<Rightarrow>
                              (case seek b of
                                 NoSeeker \<Rightarrow> request_loop E T r1 (Suc retries) sent1
                               | SeekOk \<Rightarrow>
                                   request_loop E T (r1\<lparr>body := Some (b\<lparr>pos := 0\<rparr>)\<rparr>)
                                     (Suc retries) sent1
                               | SeekFails e \<Rightarrow> (sent1, Inr (req, resp))))
                    else (sent1, Inr (req, resp))))))"
  by pat_completeness auto
termination
  by (relation "measure (\<lambda>(E, T, r, retries, sent). maxRetries - retries)") auto

declare request_loop.simps [simp del]

definition request ::
  "env \<Rightarrow> transport \<Rightarrow> Request
     \<Rightarrow> http_Request list \<times> (go_error + http_Request \<times> http_Response)" where
  "request E T r = (case err r of Some e \<Rightarrow> ([], Inl e) | None \<Rightarrow> request_loop E T r 0 [])"

definition Do :: "env \<Rightarrow> transport \<Rightarrow> Request \<Rightarrow> Result" where
  "Do E T r = (case snd (request E T r) of
                 Inl e \<Rightarrow> Result_zero\<lparr>Result.err := Some e\<rparr>
               | Inr (req, resp) \<Rightarrow> transformResponse E resp req)"

text \<open>\<open>Stream\<close> sends once, without body, and gives the live response body on 2xx.\<close>

definition Stream ::
  "env \<Rightarrow> transport \<Rightarrow> Request \<Rightarrow> go_error + (string \<times> go_error option) option" where
  "Stream E T r =
     (case err r of
        Some e \<Rightarrow> Inl e
      | None \<Rightarrow>
          (case http_NewRequest E (verb r) (URL E r) of
             Some e \<Rightarrow> Inl e
           | None \<Rightarrow>
               (let req = (build_request E r)\<lparr>req_Body := None\<rparr>
                in (case T 0 req of
                      Inl e \<Rightarrow> Inl e
                    | Inr resp \<Rightarrow>
                        if resp_StatusCode resp \<ge> 200 \<and> resp_StatusCode resp < 300
                        then Inr (resp_Body resp)
                        else (let result = transformResponse E resp req
                              in (case Error result of
                                    Some e \<Rightarrow> Inl e
                                  | None \<Rightarrow> Inl (StreamStatusError (statusCode result)
                                                    (Result.body result))))))))"

section \<open>A concrete environment for examples\<close>

text \<open>
  The examples below run the model in the environment \<open>std\<close>. Its functions are small
  stand-ins that agree with Go's on the plain ASCII inputs of the examples: decimal
  \<open>Atoi\<close>, ASCII \<open>TrimSpace\<close> and \<open>ToUpper\<close>, a media type read up to the first
  semicolon, a URL of the shape \<open>scheme://host/path\<close> or a bare path, joining of path
  elements with single slashes, durations of whole seconds below a minute, an empty file
  system, and header keys already in canonical form.
\<close>

definition is_space :: "char \<Rightarrow> bool" where
  "is_space c = (c = CHR '' '' \<or> c = CHR 0x09 \<or> c = CHR 0x0A \<or> c = CHR 0x0B
                  \<or> c = CHR 0x0C \<or> c = CHR 0x0D)"

definition std_TrimSpace :: "string \<Rightarrow> string" where
  "std_TrimSpace s = rev (dropWhile is_space (rev (dropWhile is_space s)))"

definition std_ToUpper :: "string \<Rightarrow> string" where
  "std_ToUpper s =
     map (\<lambda>c. case map_of (zip ''abcdefghijklmnopqrstuvwxyz'' ''ABCDEFGHIJKLMNOPQRSTUVWXYZ'') c of
                 None \<Rightarrow> c | Some u \<Rightarrow> u) s"

definition std_ToLower :: "string \<Rightarrow> string" where
  "std_ToLower s =
     map (\<lambda>c. case map_of (zip ''ABCDEFGHIJKLMNOPQRSTUVWXYZ'' ''abcdefghijklmnopqrstuvwxyz'') c of
                 None \<Rightarrow> c | Some u \<Rightarrow> u) s"

fun parse_digits :: "string \<Rightarrow> nat \<Rightarrow> nat option" where
  "parse_digits [] acc = Some acc"
| "parse_digits (c # cs) acc =
     (case map_of (zip ''0123456789'' [0, 1, 2, 3, 4, 5, 6, 7, 8, 9]) c of
        None \<Rightarrow> None
      | Some d \<Rightarrow> parse_digits cs (10 * acc + d))"

definition std_Atoi :: "string \<Rightarrow> int option" where
  "std_Atoi s =
     (let (neg, ds) = (case s of
                         c # cs \<Rightarrow> if c = CHR ''-'' then (True, cs)
                                   else if c = CHR ''+'' then (False, cs) else (False, s)
                       | [] \<Rightarrow> (False, s))
      in if ds = [] then None
         else (case parse_digits ds 0 of
                 None \<Rightarrow> None
               | Some n \<Rightarrow>
                   (let i = (if neg then - int n else int n)
                    in if - (2 ^ 63) \<le> i \<and> i < 2 ^ 63 then Some i else None)))"

definition std_ParseMediaType :: "string \<Rightarrow> go_error + string" where
  "std_ParseMediaType v =
     (let base = std_TrimSpace (std_ToLower (takeWhile (\<lambda>c. c \<noteq> CHR '';'') v))
      in if base = [] then Inl (OtherError ''mime: no media type'') else Inr base)"

fun split_slash :: "string \<Rightarrow> string \<Rightarrow> string list" where
  "split_slash [] cur = [cur]"
| "split_slash (c # cs) cur =
     (if c = CHR ''/'' then cur # split_slash cs [] else split_slash cs (cur @ [c]))"

fun join_slash :: "string list \<Rightarrow> string" where
  "join_slash [] = []"
| "join_slash [x] = x"
| "join_slash (x # y # ys) = x @ ''/'' @ join_slash (y # ys)"

definition std_path_Join :: "string list \<Rightarrow> string" where
  "std_path_Join elems =
     (let joined = join_slash (filter (\<lambda>e. e \<noteq> []) elems);
          segs = filter (\<lambda>e. e \<noteq> []) (split_slash joined [])
      in if joined = [] then []
         else if hd joined = CHR ''/'' then CHR ''/'' # join_slash segs
         else if segs = [] then ''.'' else join_slash segs)"

fun cut_scheme :: "string \<Rightarrow> string \<Rightarrow> (string \<times> string) option" where
  "cut_scheme [] acc = None"
| "cut_scheme (c # cs) acc =
     (if prefix ''://'' (c # cs) then Some (acc, drop 3 (c # cs)) else cut_scheme cs (acc @ [c]))"

definition std_url_Parse :: "string \<Rightarrow> go_error + URL" where
  "std_url_Parse s =
     (case cut_scheme s [] of
        None \<Rightarrow> Inr \<lparr>Scheme = [], Host = [], Path = s, RawQuery = []\<rparr>
      | Some (sch, rest) \<Rightarrow>
          Inr \<lparr>Scheme = sch, Host = takeWhile (\<lambda>c. c \<noteq> CHR ''/'') rest,
               Path = dropWhile (\<lambda>c. c \<noteq> CHR ''/'') rest, RawQuery = []\<rparr>)"

definition std_Duration_String :: "int \<Rightarrow> string" where
  "std_Duration_String d =
     (if d mod Second = 0 \<and> 0 < d \<and> d < 60 * Second then itoa (d div Second) @ ''s''
      else itoa d @ ''ns'')"

definition std :: env where
  "std = \<lparr>url_Parse = std_url_Parse,
          path_Join = std_path_Join,
          mime_ParseMediaType = std_ParseMediaType,
          Duration_String = std_Duration_String,
          ioutil_ReadFile = (\<lambda>p. Inl (OtherError ''open: no such file or directory'')),
          http_NewRequest = (\<lambda>v u. if CHR '' '' \<in> set v
                                     then Some (OtherError ''net/http: invalid method'') else None),
          strings_ToUpper = std_ToUpper,
          strings_TrimSpace = std_TrimSpace,
          strconv_Atoi = std_Atoi,
          CanonicalHeaderKey = (\<lambda>k. k)\<rparr>"

text \<open>
  Transports for examples: a server that is always busy, one that is busy once and then
  answers, and a connection that is reset once before the server answers.
\<close>

definition resp_busy :: http_Response where
  "resp_busy = \<lparr>resp_StatusCode = 503, resp_Header = [(''Retry-After'', [''0''])],
                resp_Body = Some (''busy'', None)\<rparr>"

definition resp_ok :: http_Response where
  "resp_ok = \<lparr>resp_StatusCode = 200, resp_Header = [], resp_Body = Some (''ok'', None)\<rparr>"

definition always_busy :: transport where
  "always_busy i req = Inr resp_busy"

definition busy_then_ok :: transport where
  "busy_then_ok i req = (if i = 0 then Inr resp_busy else Inr resp_ok)"

definition reset_error :: go_error where
  "reset_error = UrlError (OpError (SyscallError (Errno ECONNRESET)))"

definition reset_then_ok :: transport where
  "reset_then_ok i req = (if i = 0 then Inl reset_error else Inr resp_ok)"

text \<open>Unmarshallers for examples: they store the bytes in a target of type \<open>string\<close>.\<close>

definition store_codecs :: "string codecs" where
  "store_codecs = \<lparr>json_Unmarshal = (\<lambda>d t. (d, None)),
                   yaml_Unmarshal = (\<lambda>d t. (d, None)),
                   xml_Unmarshal = (\<lambda>d t. (d, None))\<rparr>"

section \<open>Construction: the TLS switch\<close>

lemma Index_ge: "- 1 \<le> Index s sub"
  by (induction s) (auto simp: Let_def)

lemma Index_sublist: "Index s sub \<noteq> - 1 \<longleftrightarrow> sublist sub s"
proof (induction s)
  case Nil
  then show ?case by simp
next
  case (Cons c cs)
  have ge: "- 1 \<le> Index cs sub" by (rule Index_ge)
  show ?case
  proof (cases "prefix sub (c # cs)")
    case True
    then show ?thesis by (simp add: prefix_imp_sublist)
  next
    case False
    have "Index (c # cs) sub \<noteq> - 1 \<longleftrightarrow> Index cs sub \<noteq> - 1"
      using False ge by (simp add: Let_def)
    also have "\<dots> \<longleftrightarrow> sublist sub cs" by (rule Cons.IH)
    also have "\<dots> \<longleftrightarrow> sublist sub (c # cs)"
      using False by (simp add: sublist_Cons_right)
    finally show ?thesis .
  qed
qed

text \<open>
  Claim C10. \<open>NewRequest\<close> builds a client whose TLS configuration skips certificate
  verification exactly when the base address contains the substring \<open>https\<close> somewhere;
  for every other base address verification stays on.
\<close>

theorem C10_https_substring_disables_verification:
  "client (NewRequest E baseUrl v) =
     Some \<lparr>InsecureSkipVerify = (\<exists>pre post. baseUrl = pre @ ''https'' @ post),
           DialTimeout = 30 * Second, KeepAlive = 30 * Second\<rparr>"
  using Index_sublist [of baseUrl "''https''"]
  by (simp add: NewRequest_def Let_def sublist_def)

theorem C10_witness:
  "client (NewRequest std ''nohttps.example.com'' ''get'') =
     Some \<lparr>InsecureSkipVerify = True, DialTimeout = 30 * Second, KeepAlive = 30 * Second\<rparr>
   \<and> client (NewRequest std ''www.example.com'' ''get'') =
     Some \<lparr>InsecureSkipVerify = False, DialTimeout = 30 * Second, KeepAlive = 30 * Second\<rparr>"
proof -
  have a: "\<exists>pre post. ''nohttps.example.com'' = pre @ ''https'' @ post"
    by (rule exI [of _ "''no''"], rule exI [of _ "''.example.com''"]) simp
  have b: "\<not> (\<exists>pre post. ''www.example.com'' = pre @ ''https'' @ post)"
    using Index_sublist [of "''www.example.com''" "''https''"]
    by (simp add: sublist_def)
  show ?thesis
    using C10_https_substring_disables_verification [of std "''nohttps.example.com''" "''get''"]
          C10_https_substring_disables_verification [of std "''www.example.com''" "''get''"]
          a b by simp
qed

section \<open>Classification of responses\<close>

text \<open>
  Claim C1, as the code has it. The Result of \<open>transformResponse\<close> carries no error when
  its status code lies in 200..206, and carries one whenever its status code lies outside
  200..206 and is not 101; the latter also holds of the response's own status code, whether
  or not its body could be read. So every status outside 200..299 other than 101 has an
  error, and so have 207..299.
\<close>

theorem C1_error_iff_status_outside_200_206:
  "(200 \<le> statusCode (transformResponse E resp req)
      \<and> statusCode (transformResponse E resp req) \<le> 206
      \<longrightarrow> Result.err (transformResponse E resp req) = None)
   \<and> ((statusCode (transformResponse E resp req) < 200
        \<or> statusCode (transformResponse E resp req) > 206)
      \<and> statusCode (transformResponse E resp req) \<noteq> 101
      \<longrightarrow> Result.err (transformResponse E resp req) \<noteq> None)
   \<and> ((resp_StatusCode resp < 200 \<or> resp_StatusCode resp > 206)
      \<and> resp_StatusCode resp \<noteq> 101
      \<longrightarrow> Result.err (transformResponse E resp req) \<noteq> None)"
  by (auto simp: transformResponse_def Let_def Result_zero_def StatusOK_def
        StatusPartialContent_def StatusSwitchingProtocols_def
      split: option.splits prod.splits go_error.splits)

theorem C1_witness:
  "Result.err (transformResponse std
       \<lparr>resp_StatusCode = 200, resp_Header = [], resp_Body = Some (''ok'', None)\<rparr>
       \<lparr>req_Method = ''GET'', req_URL = URL_zero, req_Header = [], req_Body = None,
        req_ctx = None\<rparr>) = None
   \<and> Result.err (transformResponse std
       \<lparr>resp_StatusCode = 404, resp_Header = [], resp_Body = Some (''gone'', None)\<rparr>
       \<lparr>req_Method = ''GET'', req_URL = URL_zero, req_Header = [], req_Body = None,
        req_ctx = None\<rparr>) \<noteq> None"
proof -
  let ?req = "\<lparr>req_Method = ''GET'', req_URL = URL_zero, req_Header = [], req_Body = None,
        req_ctx = None\<rparr>"
  let ?ok = "\<lparr>resp_StatusCode = 200, resp_Header = [], resp_Body = Some (''ok'', None)\<rparr>"
  let ?nf = "\<lparr>resp_StatusCode = 404, resp_Header = [], resp_Body = Some (''gone'', None)\<rparr>"
  have s1: "statusCode (transformResponse std ?ok ?req) = 200"
    by (simp add: transformResponse_def Let_def StatusOK_def StatusPartialContent_def
          StatusSwitchingProtocols_def)
  show ?thesis
    using C1_error_iff_status_outside_200_206 [of std ?ok ?req]
          C1_error_iff_status_outside_200_206 [of std ?nf ?req] s1
    by simp
qed

text \<open>
  The claim as the specification words it fails at status 207 (Multi-Status), which lies
  in 200..299: the Result carries an error.
\<close>

theorem C1_counterexample:
  "statusCode (transformResponse std
       \<lparr>resp_StatusCode = 207, resp_Header = [], resp_Body = Some ([], None)\<rparr>
       \<lparr>req_Method = ''GET'', req_URL = URL_zero, req_Header = [], req_Body = None,
        req_ctx = None\<rparr>) = 207
   \<and> Result.err (transformResponse std
       \<lparr>resp_StatusCode = 207, resp_Header = [], resp_Body = Some ([], None)\<rparr>
       \<lparr>req_Method = ''GET'', req_URL = URL_zero, req_Header = [], req_Body = None,
        req_ctx = None\<rparr>) \<noteq> None"
  by (simp add: transformResponse_def Let_def StatusOK_def StatusPartialContent_def
        StatusSwitchingProtocols_def)

text \<open>
  Claim C6, as the code has it. For the status codes 403, 406 and 415 the message of the
  error is the body text, cut to 2048 bytes and trimmed, when the response is texty, and
  \<open>unknown\<close> otherwise. For 429 the message is the fixed sentence of the table, whatever
  the body says.
\<close>

theorem C6_server_text_for_403_406_415:
  "(code = 403 \<or> code = 406 \<or> code = 415 \<longrightarrow>
      newUnstructuredResponseError E b isText code m ra =
        StatusError (if isText then strings_TrimSpace E (take 2048 b) else ''unknown''))
   \<and> newUnstructuredResponseError E b isText 429 m ra =
        StatusError ''the server has received too many requests and has asked us to try again later''
   \<and> ((resp_StatusCode resp = 403 \<or> resp_StatusCode resp = 406 \<or> resp_StatusCode resp = 415)
        \<and> resp_Body resp = Some (d, None) \<longrightarrow>
      Result.err (transformResponse E resp req) =
        Some (StatusError (if isTextResponse E resp then strings_TrimSpace E (take 2048 d)
                           else ''unknown'')))"
  by (auto simp: newUnstructuredResponseError_def NewGenericServerResponse_def Let_def
        maxUnstructuredResponseTextBytes_def transformResponse_def
        transformUnstructuredResponseError_def StatusOK_def StatusPartialContent_def
        StatusSwitchingProtocols_def)

theorem C6_witness:
  "Result.err (transformResponse std
       \<lparr>resp_StatusCode = 403, resp_Header = [], resp_Body = Some (''  denied  '', None)\<rparr>
       \<lparr>req_Method = ''GET'', req_URL = URL_zero, req_Header = [], req_Body = None,
        req_ctx = None\<rparr>) = Some (StatusError ''denied'')
   \<and> Result.err (transformResponse std
       \<lparr>resp_StatusCode = 415, resp_Header = [(''Content-Type'', [''application/json''])],
        resp_Body = Some (''{}'', None)\<rparr>
       \<lparr>req_Method = ''GET'', req_URL = URL_zero, req_Header = [], req_Body = None,
        req_ctx = None\<rparr>) = Some (StatusError ''unknown'')"
proof -
  let ?req = "\<lparr>req_Method = ''GET'', req_URL = URL_zero, req_Header = [], req_Body = None,
        req_ctx = None\<rparr>"
  let ?a = "\<lparr>resp_StatusCode = 403, resp_Header = [], resp_Body = Some (''  denied  '', None)\<rparr>"
  let ?b = "\<lparr>resp_StatusCode = 415, resp_Header = [(''Content-Type'', [''application/json''])],
        resp_Body = Some (''{}'', None)\<rparr>"
  have ta: "isTextResponse std ?a"
    by (simp add: isTextResponse_def Header_Get_def Values_Get_def vals_def std_def)
  have tb: "\<not> isTextResponse std ?b"
    by (simp add: isTextResponse_def Header_Get_def Values_Get_def vals_def std_def
          std_ParseMediaType_def std_TrimSpace_def std_ToLower_def is_space_def Let_def)
  have tr: "strings_TrimSpace std (take 2048 ''  denied  '') = ''denied''"
    by (simp add: std_def std_TrimSpace_def is_space_def)
  show ?thesis
    using C6_server_text_for_403_406_415 [of 403 std "[]" True "[]" 0 ?a "''  denied  ''" ?req]
          C6_server_text_for_403_406_415 [of 415 std "[]" True "[]" 0 ?b "''{}''" ?req]
          ta tb tr
    by simp
qed

text \<open>
  The claim as the specification words it fails at status 429: a texty response with the
  body \<open>slow down\<close> gets the fixed sentence, not the body text.
\<close>

theorem C6_counterexample:
  "isTextResponse std
       \<lparr>resp_StatusCode = 429, resp_Header = [], resp_Body = Some (''slow down'', None)\<rparr>
   \<and> strings_TrimSpace std (take 2048 ''slow down'') = ''slow down''
   \<and> Result.err (transformResponse std
       \<lparr>resp_StatusCode = 429, resp_Header = [], resp_Body = Some (''slow down'', None)\<rparr>
       \<lparr>req_Method = ''GET'', req_URL = URL_zero, req_Header = [], req_Body = None,
        req_ctx = None\<rparr>)
     = Some (StatusError
         ''the server has received too many requests and has asked us to try again later'')
   \<and> Result.err (transformResponse std
       \<lparr>resp_StatusCode = 429, resp_Header = [], resp_Body = Some (''slow down'', None)\<rparr>
       \<lparr>req_Method = ''GET'', req_URL = URL_zero, req_Header = [], req_Body = None,
        req_ctx = None\<rparr>)
     \<noteq> Some (StatusError ''slow down'')"
  by (simp add: transformResponse_def transformUnstructuredResponseError_def
        newUnstructuredResponseError_def NewGenericServerResponse_def Let_def
        isTextResponse_def Header_Get_def Values_Get_def vals_def std_def
        std_TrimSpace_def is_space_def
        StatusOK_def StatusPartialContent_def StatusSwitchingProtocols_def)

section \<open>Decoding a Result into a target\<close>

lemma transformResponse_success:
  assumes "200 \<le> resp_StatusCode resp" "resp_StatusCode resp \<le> 206"
  shows "resp_Body resp = None \<Longrightarrow>
           Result.body (transformResponse E resp req) = []
           \<and> Result.err (transformResponse E resp req) = None"
    and "resp_Body resp = Some (d, None) \<Longrightarrow>
           Result.body (transformResponse E resp req) = d
           \<and> Result.err (transformResponse E resp req) = None"
  using assms
  by (simp_all add: transformResponse_def Let_def StatusOK_def StatusPartialContent_def
        StatusSwitchingProtocols_def)

text \<open>
  Claim C7, as the code has it. \<open>Into\<close> returns before decoding, with the target untouched,
  in exactly three cases: the Result carries an error (which it returns), the body is empty
  (the error \<open>0-length response\<close>), or the Content-Type does not parse as a media type
  (the parser's error). In every other case its outcome is that of \<open>Decode\<close>. For a
  response whose status lies in 200..206 and whose body is empty, \<open>Raw\<close> gives the empty
  bytes and no error while \<open>Into\<close> fails with \<open>0-length response\<close>.
\<close>

theorem C7_Into_early_failures:
  "(Result.err r \<noteq> None \<longrightarrow> Into E C r obj = (obj, Result.err r))
   \<and> (Result.err r = None \<and> Result.body r = [] \<longrightarrow>
        Into E C r obj = (obj, Some ZeroLengthResponse))
   \<and> (Result.err r = None \<and> Result.body r \<noteq> []
        \<and> mime_ParseMediaType E (contentType r) = Inl e \<longrightarrow>
        Into E C r obj = (obj, Some e))
   \<and> (Result.err r = None \<and> Result.body r \<noteq> []
        \<and> mime_ParseMediaType E (contentType r) = Inr mediaType \<longrightarrow>
        Into E C r obj = Decode C (Result.body r) mediaType obj)
   \<and> (200 \<le> resp_StatusCode resp \<and> resp_StatusCode resp \<le> 206
        \<and> (resp_Body resp = None \<or> resp_Body resp = Some ([], None)) \<longrightarrow>
        Raw (transformResponse E resp req) = ([], None)
        \<and> Into E C (transformResponse E resp req) obj = (obj, Some ZeroLengthResponse))"
proof -
  have early: "Result.err r \<noteq> None \<longrightarrow> Into E C r obj = (obj, Result.err r)"
    by (simp add: Into_def Error_def)
  have empty: "Result.err r = None \<and> Result.body r = [] \<longrightarrow>
        Into E C r obj = (obj, Some ZeroLengthResponse)"
    by (simp add: Into_def)
  have bad: "Result.err r = None \<and> Result.body r \<noteq> []
        \<and> mime_ParseMediaType E (contentType r) = Inl e \<longrightarrow>
        Into E C r obj = (obj, Some e)"
    by (simp add: Into_def)
  have dec: "Result.err r = None \<and> Result.body r \<noteq> []
        \<and> mime_ParseMediaType E (contentType r) = Inr mediaType \<longrightarrow>
        Into E C r obj = Decode C (Result.body r) mediaType obj"
    by (simp add: Into_def)
  have raw: "200 \<le> resp_StatusCode resp \<and> resp_StatusCode resp \<le> 206
        \<and> (resp_Body resp = None \<or> resp_Body resp = Some ([], None)) \<longrightarrow>
        Raw (transformResponse E resp req) = ([], None)
        \<and> Into E C (transformResponse E resp req) obj = (obj, Some ZeroLengthResponse)"
  proof (intro impI, elim conjE)
    assume lo: "200 \<le> resp_StatusCode resp" and hi: "resp_StatusCode resp \<le> 206"
      and nobody: "resp_Body resp = None \<or> resp_Body resp = Some ([], None)"
    from nobody have "Result.body (transformResponse E resp req) = []
        \<and> Result.err (transformResponse E resp req) = None"
      using transformResponse_success(1) [OF lo hi, of E req]
            transformResponse_success(2) [OF lo hi, of "[]" E req]
      by blast
    then show "Raw (transformResponse E resp req) = ([], None)
        \<and> Into E C (transformResponse E resp req) obj = (obj, Some ZeroLengthResponse)"
      by (simp add: Raw_def Into_def)
  qed
  from early empty bad dec raw show ?thesis by blast
qed

theorem C7_witness:
  "Raw (transformResponse std
       \<lparr>resp_StatusCode = 200, resp_Header = [(''Content-Type'', [''application/json''])],
        resp_Body = Some ([], None)\<rparr>
       \<lparr>req_Method = ''GET'', req_URL = URL_zero, req_Header = [], req_Body = None,
        req_ctx = None\<rparr>) = ([], None)
   \<and> Into std store_codecs (transformResponse std
       \<lparr>resp_StatusCode = 200, resp_Header = [(''Content-Type'', [''application/json''])],
        resp_Body = Some ([], None)\<rparr>
       \<lparr>req_Method = ''GET'', req_URL = URL_zero, req_Header = [], req_Body = None,
        req_ctx = None\<rparr>) ''old'' = (''old'', Some ZeroLengthResponse)
   \<and> Into std store_codecs
       \<lparr>Result.body = ''{}'', contentType = ''application/json'', Result.err = None,
        statusCode = 200, Result.headers = [], cookies = []\<rparr> ''old'' = (''{}'', None)
   \<and> Into std store_codecs
       \<lparr>Result.body = ''{}'', contentType = [], Result.err = None,
        statusCode = 200, Result.headers = [], cookies = []\<rparr> ''old''
       = (''old'', Some (OtherError ''mime: no media type''))
   \<and> Into std store_codecs
       \<lparr>Result.body = ''gone'', contentType = ''text/plain'',
        Result.err = Some (StatusError ''the server could not find the requested resource''),
        statusCode = 404, Result.headers = [], cookies = []\<rparr> ''old''
       = (''old'', Some (StatusError ''the server could not find the requested resource''))"
proof -
  let ?req = "\<lparr>req_Method = ''GET'', req_URL = URL_zero, req_Header = [], req_Body = None,
        req_ctx = None\<rparr>"
  let ?resp = "\<lparr>resp_StatusCode = 200, resp_Header = [(''Content-Type'', [''application/json''])],
        resp_Body = Some ([], None)\<rparr>"
  let ?r1 = "\<lparr>Result.body = ''{}'', contentType = ''application/json'', Result.err = None,
        statusCode = 200, Result.headers = [], cookies = []\<rparr>"
  let ?r2 = "\<lparr>Result.body = ''{}'', contentType = [], Result.err = None,
        statusCode = 200, Result.headers = [], cookies = []\<rparr>"
  let ?r3 = "\<lparr>Result.body = ''gone'', contentType = ''text/plain'',
        Result.err = Some (StatusError ''the server could not find the requested resource''),
        statusCode = 404, Result.headers = [], cookies = []\<rparr>"
  have p1: "mime_ParseMediaType std (contentType ?r1) = Inr ''application/json''"
    by (simp add: std_def std_ParseMediaType_def std_TrimSpace_def std_ToLower_def
          is_space_def Let_def)
  have p2: "mime_ParseMediaType std (contentType ?r2) = Inl (OtherError ''mime: no media type'')"
    by (simp add: std_def std_ParseMediaType_def std_TrimSpace_def std_ToLower_def
          is_space_def Let_def)
  have d1: "Decode store_codecs ''{}'' ''application/json'' ''old'' = (''{}'', None)"
    by (simp add: Decode_def store_codecs_def)
  show ?thesis
    using C7_Into_early_failures [of ?r1 std store_codecs "''old''" "OtherError []"
            "''application/json''" ?resp ?req]
          C7_Into_early_failures [of ?r2 std store_codecs "''old''"
            "OtherError ''mime: no media type''" "[]" ?resp ?req]
          C7_Into_early_failures [of ?r3 std store_codecs "''old''" "OtherError []"
            "[]" ?resp ?req]
          p1 p2 d1
    by simp
qed

text \<open>
  The last sentence of the claim, worded for every 2xx status, fails at 207: the Result of
  an empty 207 response carries an error, so \<open>Raw\<close> returns it with the empty bytes and
  \<open>Into\<close> returns it instead of \<open>0-length response\<close>.
\<close>

theorem C7_counterexample:
  "fst (Raw (transformResponse std
       \<lparr>resp_StatusCode = 207, resp_Header = [(''Content-Type'', [''application/json''])],
        resp_Body = Some ([], None)\<rparr>
       \<lparr>req_Method = ''GET'', req_URL = URL_zero, req_Header = [], req_Body = None,
        req_ctx = None\<rparr>)) = []
   \<and> snd (Raw (transformResponse std
       \<lparr>resp_StatusCode = 207, resp_Header = [(''Content-Type'', [''application/json''])],
        resp_Body = Some ([], None)\<rparr>
       \<lparr>req_Method = ''GET'', req_URL = URL_zero, req_Header = [], req_Body = None,
        req_ctx = None\<rparr>)) \<noteq> None
   \<and> snd (Into std store_codecs (transformResponse std
       \<lparr>resp_StatusCode = 207, resp_Header = [(''Content-Type'', [''application/json''])],
        resp_Body = Some ([], None)\<rparr>
       \<lparr>req_Method = ''GET'', req_URL = URL_zero, req_Header = [], req_Body = None,
        req_ctx = None\<rparr>) ''old'') \<noteq> Some ZeroLengthResponse"
  by (simp add: Raw_def Into_def Error_def transformResponse_def
        transformUnstructuredResponseError_def newUnstructuredResponseError_def
        NewGenericServerResponse_def Let_def StatusOK_def StatusPartialContent_def
        StatusSwitchingProtocols_def)

text \<open>
  Claim C8, as the code has it. For a media type other than \<open>application/json\<close>,
  \<open>application/yaml\<close>, \<open>application/xml\<close> and \<open>text/xml\<close>, \<open>Decode\<close> returns the
  target as it got it and no error; so does \<open>Into\<close> on a Result without error, with a
  non-empty body, whose Content-Type parses to such a media type. When the Content-Type
  does not parse as a media type, as an absent one does not, \<open>Into\<close> on such a Result
  returns the parser's error, and the target is again as it was.
\<close>

theorem C8_unsupported_media_type_is_silent:
  "(mediaType \<noteq> ''application/json'' \<and> mediaType \<noteq> ''application/yaml''
      \<and> mediaType \<noteq> ''application/xml'' \<and> mediaType \<noteq> ''text/xml''
      \<longrightarrow> Decode C d mediaType obj = (obj, None))
   \<and> (Result.err r = None \<and> Result.body r \<noteq> []
      \<and> mime_ParseMediaType E (contentType r) = Inr mediaType
      \<and> mediaType \<noteq> ''application/json'' \<and> mediaType \<noteq> ''application/yaml''
      \<and> mediaType \<noteq> ''application/xml'' \<and> mediaType \<noteq> ''text/xml''
      \<longrightarrow> Into E C r obj = (obj, None))
   \<and> (Result.err r = None \<and> Result.body r \<noteq> []
      \<and> mime_ParseMediaType E (contentType r) = Inl e
      \<longrightarrow> Into E C r obj = (obj, Some e))"
  by (simp add: Decode_def Into_def)

theorem C8_witness:
  "Into std store_codecs
       \<lparr>Result.body = ''hello'', contentType = ''text/plain; charset=utf-8'', Result.err = None,
        statusCode = 200, Result.headers = [], cookies = []\<rparr> ''old'' = (''old'', None)
   \<and> Decode store_codecs ''hello'' ''application/octet-stream'' ''old'' = (''old'', None)
   \<and> Into std store_codecs
       \<lparr>Result.body = ''hello'', contentType = [], Result.err = None,
        statusCode = 200, Result.headers = [], cookies = []\<rparr> ''old''
       = (''old'', Some (OtherError ''mime: no media type''))"
proof -
  let ?r = "\<lparr>Result.body = ''hello'', contentType = ''text/plain; charset=utf-8'',
        Result.err = None, statusCode = 200, Result.headers = [], cookies = []\<rparr>"
  let ?a = "\<lparr>Result.body = ''hello'', contentType = [],
        Result.err = None, statusCode = 200, Result.headers = [], cookies = []\<rparr>"
  have p: "mime_ParseMediaType std (contentType ?r) = Inr ''text/plain''"
    by (simp add: std_def std_ParseMediaType_def std_TrimSpace_def std_ToLower_def
          is_space_def Let_def)
  have pa: "mime_ParseMediaType std (contentType ?a) = Inl (OtherError ''mime: no media type'')"
    by (simp add: std_def std_ParseMediaType_def std_TrimSpace_def std_ToLower_def
          is_space_def Let_def)
  show ?thesis
    using C8_unsupported_media_type_is_silent
            [where mediaType = "''text/plain''" and C = store_codecs and d = "''hello''"
               and obj = "''old''" and r = ?r and E = std]
          C8_unsupported_media_type_is_silent
            [where mediaType = "''application/octet-stream''" and C = store_codecs
               and d = "''hello''" and obj = "''old''" and r = ?r and E = std]
          C8_unsupported_media_type_is_silent
            [where mediaType = "[]" and C = store_codecs and d = "''hello''"
               and obj = "''old''" and r = ?a and E = std
               and e = "OtherError ''mime: no media type''"]
          p pa
    by simp
qed

text \<open>
  The claim as the specification words it includes an absent media type, and fails there:
  a 200 response without Content-Type and with the body \<open>hello\<close> gives a Result without
  error and with a non-empty body, on which \<open>Into\<close> returns the error
  \<open>mime: no media type\<close>.
\<close>

theorem C8_counterexample:
  "Result.err (transformResponse std
       \<lparr>resp_StatusCode = 200, resp_Header = [], resp_Body = Some (''hello'', None)\<rparr>
       \<lparr>req_Method = ''GET'', req_URL = URL_zero, req_Header = [], req_Body = None,
        req_ctx = None\<rparr>) = None
   \<and> Result.body (transformResponse std
       \<lparr>resp_StatusCode = 200, resp_Header = [], resp_Body = Some (''hello'', None)\<rparr>
       \<lparr>req_Method = ''GET'', req_URL = URL_zero, req_Header = [], req_Body = None,
        req_ctx = None\<rparr>) = ''hello''
   \<and> contentType (transformResponse std
       \<lparr>resp_StatusCode = 200, resp_Header = [], resp_Body = Some (''hello'', None)\<rparr>
       \<lparr>req_Method = ''GET'', req_URL = URL_zero, req_Header = [], req_Body = None,
        req_ctx = None\<rparr>) = []
   \<and> Into std store_codecs (transformResponse std
       \<lparr>resp_StatusCode = 200, resp_Header = [], resp_Body = Some (''hello'', None)\<rparr>
       \<lparr>req_Method = ''GET'', req_URL = URL_zero, req_Header = [], req_Body = None,
        req_ctx = None\<rparr>) ''old''
     = (''old'', Some (OtherError ''mime: no media type''))"
  by (simp add: Into_def transformResponse_def Let_def StatusOK_def StatusPartialContent_def
        StatusSwitchingProtocols_def Header_Get_def Values_Get_def vals_def std_def
        std_ParseMediaType_def std_TrimSpace_def std_ToLower_def is_space_def)

section \<open>Query parameters and the timeout\<close>

lemma vals_update: "vals (AList.update k v m) k' = (if k' = k then v else vals m k')"
  by (simp add: vals_def update_conv')

lemma vals_fold_Add:
  "vals (fold (\<lambda>value q'. Values_Add q' key value) vs q) k =
     (if k = key then vals q k @ vs else vals q k)"
  by (induction vs arbitrary: q) (simp_all add: Values_Add_def vals_update)

lemma vals_copy:
  "vals (fold (\<lambda>(key, values) q. fold (\<lambda>value q'. Values_Add q' key value) values q) ps q0) k =
     vals q0 k @ concat (map snd (filter (\<lambda>p. fst p = k) ps))"
  by (induction ps arbitrary: q0) (auto simp: vals_fold_Add)

lemma concat_distinct_key:
  "distinct (map fst ps) \<Longrightarrow> concat (map snd (filter (\<lambda>p. fst p = k) ps)) = vals ps k"
proof (induction ps)
  case Nil
  then show ?case by (simp add: vals_def)
next
  case (Cons p ps)
  show ?case
  proof (cases "fst p = k")
    case True
    with Cons.prems have "k \<notin> fst ` set ps" by auto
    then have "filter (\<lambda>p. fst p = k) ps = []" by (auto simp: filter_empty_conv)
    with True show ?thesis by (cases p) (simp add: vals_def)
  next
    case False
    with Cons show ?thesis by (cases p) (simp add: vals_def)
  qed
qed

lemma distinct_fold_Add:
  "distinct (map fst q) \<Longrightarrow>
     distinct (map fst (fold (\<lambda>value q'. Values_Add q' key value) vs q))"
  by (induction vs arbitrary: q) (simp_all add: Values_Add_def distinct_update)

lemma distinct_copy:
  "distinct (map fst q0) \<Longrightarrow>
     distinct (map fst (fold (\<lambda>(key, values) q. fold (\<lambda>value q'. Values_Add q' key value) values q) ps q0))"
  by (induction ps arbitrary: q0) (auto simp: distinct_fold_Add)

lemma one_entry:
  "distinct (map fst m) \<Longrightarrow> k \<in> fst ` set m \<Longrightarrow> length (filter (\<lambda>p. fst p = k) m) = 1"
proof (induction m)
  case Nil
  then show ?case by simp
next
  case (Cons p m)
  show ?case
  proof (cases "fst p = k")
    case True
    with Cons.prems have "k \<notin> fst ` set m" by auto
    then have "filter (\<lambda>p. fst p = k) m = []" by (auto simp: filter_empty_conv)
    with True show ?thesis by simp
  next
    case False
    with Cons show ?thesis by auto
  qed
qed

lemma URL_query_timeout:
  assumes "timeout r \<noteq> 0"
  shows "vals (RawQuery (URL E r)) ''timeout'' = [Duration_String E (timeout r)]"
    and "length (filter (\<lambda>p. fst p = ''timeout'') (RawQuery (URL E r))) = 1"
proof -
  let ?q = "fold (\<lambda>(key, values) q. fold (\<lambda>value q'. Values_Add q' key value) values q)
              (params r) []"
  have rq: "RawQuery (URL E r) = Values_Set ?q ''timeout'' (Duration_String E (timeout r))"
    using assms by (simp add: URL_def Let_def)
  show "vals (RawQuery (URL E r)) ''timeout'' = [Duration_String E (timeout r)]"
    by (simp add: rq Values_Set_def vals_update)
  have "distinct (map fst ?q)" by (rule distinct_copy) simp
  then have d: "distinct (map fst (RawQuery (URL E r)))"
    by (simp add: rq Values_Set_def distinct_update)
  have m: "''timeout'' \<in> fst ` set (RawQuery (URL E r))"
    by (simp add: rq Values_Set_def dom_update)
  from d m show "length (filter (\<lambda>p. fst p = ''timeout'') (RawQuery (URL E r))) = 1"
    by (rule one_entry)
qed

lemma URL_query_other:
  assumes "k \<noteq> ''timeout'' \<or> timeout r = 0" "distinct (map fst (params r))"
  shows "vals (RawQuery (URL E r)) k = vals (params r) k"
  using assms
  by (auto simp: URL_def Let_def Values_Set_def vals_update vals_copy concat_distinct_key
        vals_def [of "[]"])

lemma Param_ok:
  assumes "err r = None"
  shows "params (Param k v r) = AList.update k (vals (params r) k @ [v]) (params r)"
    and "timeout (Param k v r) = timeout r"
  using assms by (simp_all add: Param_def setParam_def Values_Add_def)

text \<open>
  The keys of \<open>params\<close> are distinct, as those of a Go map are: \<open>NewRequest\<close> starts
  from the empty map and every method that writes \<open>params\<close> keeps them so.
\<close>

lemma distinct_fold_update:
  "distinct (map fst p0) \<Longrightarrow>
     distinct (map fst (fold (\<lambda>(k, v) p. AList.update k v p) q p0))"
  by (induction q arbitrary: p0) (auto simp: distinct_update)

lemma params_keys_distinct:
  "distinct (map fst (params (NewRequest E baseUrl v0)))"
  "distinct (map fst (params r)) \<Longrightarrow> distinct (map fst (params (setParam k v r)))"
  "distinct (map fst (params r)) \<Longrightarrow> distinct (map fst (params (Param k v r)))"
  "distinct (map fst (params r)) \<Longrightarrow> distinct (map fst (params (RequestURI E uri r)))"
  by (auto simp: NewRequest_def Let_def setParam_def Param_def RequestURI_def Values_Add_def
        distinct_update distinct_fold_update split: sum.splits)

text \<open>
  Claim C9. With a non-zero timeout, the query of the composed URL has exactly one entry
  for \<open>timeout\<close> and its only value is the duration's string, also after the caller
  added a \<open>timeout\<close> value with \<open>Param\<close>. For a request without a recorded error,
  \<open>Param\<close> appends the value to the list of its key; for every key that the timeout
  does not overwrite, the query of the composed URL shows the appended list.
\<close>

theorem C9_timeout_overrides_and_params_accumulate:
  "(timeout r \<noteq> 0 \<longrightarrow>
      vals (RawQuery (URL E r)) ''timeout'' = [Duration_String E (timeout r)]
      \<and> length (filter (\<lambda>p. fst p = ''timeout'') (RawQuery (URL E r))) = 1
      \<and> vals (RawQuery (URL E (Param ''timeout'' v r))) ''timeout''
          = [Duration_String E (timeout r)])
   \<and> (err r = None \<longrightarrow> vals (params (Param k v r)) k = vals (params r) k @ [v])
   \<and> (err r = None \<and> distinct (map fst (params r)) \<and> (k \<noteq> ''timeout'' \<or> timeout r = 0) \<longrightarrow>
        vals (RawQuery (URL E (Param k v r))) k = vals (RawQuery (URL E r)) k @ [v])"
proof -
  have t: "timeout (Param ''timeout'' v r) = timeout r"
    by (simp add: Param_def setParam_def)
  have a: "timeout r \<noteq> 0 \<longrightarrow>
      vals (RawQuery (URL E r)) ''timeout'' = [Duration_String E (timeout r)]
      \<and> length (filter (\<lambda>p. fst p = ''timeout'') (RawQuery (URL E r))) = 1
      \<and> vals (RawQuery (URL E (Param ''timeout'' v r))) ''timeout''
          = [Duration_String E (timeout r)]"
    using URL_query_timeout [of r E] URL_query_timeout(1) [of "Param ''timeout'' v r" E] t
    by simp
  have b: "err r = None \<longrightarrow> vals (params (Param k v r)) k = vals (params r) k @ [v]"
    by (simp add: Param_ok(1) vals_update)
  have c: "err r = None \<and> distinct (map fst (params r)) \<and> (k \<noteq> ''timeout'' \<or> timeout r = 0) \<longrightarrow>
        vals (RawQuery (URL E (Param k v r))) k = vals (RawQuery (URL E r)) k @ [v]"
  proof (intro impI, elim conjE)
    assume e: "err r = None" and d: "distinct (map fst (params r))"
      and k: "k \<noteq> ''timeout'' \<or> timeout r = 0"
    have d': "distinct (map fst (params (Param k v r)))"
      using d by (simp add: Param_ok(1) [OF e] distinct_update)
    have k': "k \<noteq> ''timeout'' \<or> timeout (Param k v r) = 0"
      using k by (simp add: Param_ok(2) [OF e])
    have "vals (RawQuery (URL E (Param k v r))) k = vals (params (Param k v r)) k"
      by (rule URL_query_other [OF k' d'])
    also have "\<dots> = vals (params r) k @ [v]"
      by (simp add: Param_ok(1) [OF e] vals_update)
    also have "vals (params r) k = vals (RawQuery (URL E r)) k"
      by (rule URL_query_other [OF k d, symmetric])
    finally show "vals (RawQuery (URL E (Param k v r))) k = vals (RawQuery (URL E r)) k @ [v]" .
  qed
  from a b c show ?thesis by blast
qed

theorem C9_witness:
  "RawQuery (URL std (Param ''a'' ''2'' (Param ''a'' ''1'' (Param ''timeout'' ''99''
       (Timeout (2 * Second) (NewRequest std ''www.example.com'' ''get''))))))
     = [(''timeout'', [''2s'']), (''a'', [''1'', ''2''])]"
proof -
  let ?r0 = "Timeout (2 * Second) (NewRequest std ''www.example.com'' ''get'')"
  let ?r1 = "Param ''timeout'' ''99'' ?r0"
  let ?r2 = "Param ''a'' ''1'' ?r1"
  have e0: "err ?r0 = None" and t0: "timeout ?r0 = 2 * Second" and p0: "params ?r0 = []"
    by (simp_all add: Timeout_def NewRequest_def Let_def Second_def)
  have r2: "err ?r2 = None" "timeout ?r2 = 2 * Second"
       "params ?r2 = [(''timeout'', [''99'']), (''a'', [''1''])]"
    using e0 t0 p0
    by (simp_all add: Param_def setParam_def Values_Add_def vals_def)
  have d: "distinct (map fst (params ?r2))" by (simp add: r2)
  have q2: "RawQuery (URL std ?r2) = [(''timeout'', [''2s'']), (''a'', [''1''])]"
    using r2
    by (simp add: URL_def Let_def Values_Add_def Values_Set_def vals_def std_def
          std_Duration_String_def Second_def itoa_def utoa.simps)
  have "vals (RawQuery (URL std (Param ''a'' ''2'' ?r2))) ''a''
          = vals (RawQuery (URL std ?r2)) ''a'' @ [''2'']"
    using C9_timeout_overrides_and_params_accumulate [of ?r2 std "''2''" "''a''"] r2 d
    by simp
  then have "vals (RawQuery (URL std (Param ''a'' ''2'' ?r2))) ''a'' = [''1'', ''2'']"
    by (simp add: q2 vals_def)
  moreover have "RawQuery (URL std (Param ''a'' ''2'' ?r2))
      = [(''timeout'', [''2s'']), (''a'', vals (RawQuery (URL std (Param ''a'' ''2'' ?r2))) ''a'')]"
    using r2
    by (simp add: URL_def Let_def Param_def setParam_def Values_Add_def Values_Set_def vals_def
          std_def std_Duration_String_def Second_def itoa_def utoa.simps)
  ultimately show ?thesis by simp
qed

section \<open>A recorded configuration error\<close>

text \<open>
  Claim C5, as the code has it. Once an error is recorded, \<open>Timeout\<close>, \<open>Prefix\<close>,
  \<open>Suffix\<close>, \<open>AbsPath\<close>, \<open>RequestURI\<close>, \<open>Param\<close> and \<open>Body\<close> change nothing.
  \<open>HttpClient\<close>, \<open>Header\<close> and \<open>Context\<close> have no such guard: they still write the
  client, the headers and the context, and nothing else, so the recorded error stays. \<open>Do\<close>
  and \<open>Stream\<close> send nothing and fail with the recorded error.
\<close>

theorem C5_guarded_methods_are_noops_after_error:
  "err r = Some e \<Longrightarrow>
     Timeout d r = r \<and> Prefix E segs r = r \<and> Suffix E segs r = r \<and> AbsPath E segs r = Some r
     \<and> RequestURI E uri r = r \<and> Param k v r = r \<and> Body E obj r = r
     \<and> HttpClient c r = r\<lparr>client := c\<rparr>
     \<and> Header E key values r
         = r\<lparr>headers := fold (\<lambda>value h. Header_Add E h key value) values
                           (Header_Del E (headers r) key)\<rparr>
     \<and> Context cx r = r\<lparr>ctx := cx\<rparr>
     \<and> err (HttpClient c r) = Some e \<and> err (Header E key values r) = Some e
     \<and> err (Context cx r) = Some e
     \<and> request E T r = ([], Inl e)
     \<and> Do E T r = Result_zero\<lparr>Result.err := Some e\<rparr>
     \<and> Stream E T r = Inl e"
  by (simp add: Timeout_def Prefix_def Suffix_def AbsPath_def RequestURI_def Param_def Body_def
        HttpClient_def Header_def Context_def request_def Do_def Stream_def)

theorem C5_witness:
  "Param ''a'' ''1'' (Body std OtherValue (NewRequest std ''www.example.com'' ''get''))
     = Body std OtherValue (NewRequest std ''www.example.com'' ''get'')
   \<and> Do std always_busy (Body std OtherValue (NewRequest std ''www.example.com'' ''get''))
     = Result_zero\<lparr>Result.err := Some UnknownBodyType\<rparr>
   \<and> Stream std always_busy (Body std OtherValue (NewRequest std ''www.example.com'' ''get''))
     = Inl UnknownBodyType"
proof -
  let ?r = "Body std OtherValue (NewRequest std ''www.example.com'' ''get'')"
  have e: "err ?r = Some UnknownBodyType"
    by (simp add: Body_def NewRequest_def Let_def)
  show ?thesis
    using C5_guarded_methods_are_noops_after_error [OF e, where k = "''a''" and v = "''1''"
            and E = std and T = always_busy]
    by simp
qed

text \<open>
  The claim as the specification words it fails for \<open>Header\<close>: after \<open>Body\<close> recorded
  an error for a value of unknown type, \<open>Header\<close> still sets the header.
\<close>

theorem C5_counterexample:
  "err (Body std OtherValue (NewRequest std ''www.example.com'' ''get'')) = Some UnknownBodyType
   \<and> headers (Body std OtherValue (NewRequest std ''www.example.com'' ''get'')) = []
   \<and> headers (Header std ''Accept'' [''text/plain'']
        (Body std OtherValue (NewRequest std ''www.example.com'' ''get'')))
       = [(''Accept'', [''text/plain''])]
   \<and> Header std ''Accept'' [''text/plain'']
        (Body std OtherValue (NewRequest std ''www.example.com'' ''get''))
       \<noteq> Body std OtherValue (NewRequest std ''www.example.com'' ''get'')"
proof -
  let ?r = "Body std OtherValue (NewRequest std ''www.example.com'' ''get'')"
  have e: "err ?r = Some UnknownBodyType" and h: "headers ?r = []"
    by (simp_all add: Body_def NewRequest_def Let_def)
  have h': "headers (Header std ''Accept'' [''text/plain''] ?r) = [(''Accept'', [''text/plain''])]"
    by (simp add: Header_def h)
       (simp add: Header_Add_def Header_Del_def Values_Add_def Values_Del_def vals_def std_def)
  have "Header std ''Accept'' [''text/plain''] ?r \<noteq> ?r"
  proof
    assume "Header std ''Accept'' [''text/plain''] ?r = ?r"
    then have "headers (Header std ''Accept'' [''text/plain''] ?r) = headers ?r" by simp
    with h h' show False by simp
  qed
  with e h h' show ?thesis by simp
qed

section \<open>The retry loop\<close>

lemma URL_body_irrelevant [simp]: "URL E (r\<lparr>body := b\<rparr>) = URL E r"
  by (simp add: URL_def Let_def)

lemma checkWait_503:
  "resp_StatusCode resp = 503 \<Longrightarrow> snd (retryAfterSeconds E resp) \<Longrightarrow> snd (checkWait E resp)"
  by (simp add: checkWait_def Let_def)

text \<open>
  One pass through the loop body once the response to go on with is known: the transport's
  own, or the placeholder after a connection reset on GET.
\<close>

lemma request_loop_step:
  assumes "http_NewRequest E (verb r) (URL E r) = None"
      and "(case T (length sent) (build_request E r) of
              Inl e \<Rightarrow> if \<not> IsConnectionReset e \<or> verb r \<noteq> ''GET''
                       then Inl e else Inr placeholder
            | Inr resp' \<Rightarrow> Inr resp') = Inr resp"
  shows "request_loop E T r retries sent =
     (if snd (checkWait E resp) \<and> Suc retries < maxRetries
      then (case body r of
              None \<Rightarrow> request_loop E T r (Suc retries) (sent @ [build_request E r])
            | Some b \<Rightarrow>
                (case seek b of
                   NoSeeker \<Rightarrow> request_loop E T (r\<lparr>body := Some (drained b)\<rparr>) (Suc retries)
                                 (sent @ [build_request E r])
                 | SeekOk \<Rightarrow> request_loop E T (r\<lparr>body := Some (b\<lparr>pos := 0\<rparr>)\<rparr>) (Suc retries)
                               (sent @ [build_request E r])
                 | SeekFails e \<Rightarrow> (sent @ [build_request E r], Inr (build_request E r, resp))))
      else (sent @ [build_request E r], Inr (build_request E r, resp)))"
proof (cases "body r")
  case None
  then have same: "r\<lparr>body := None\<rparr> = r" by simp
  from None assms show ?thesis
    by (subst request_loop.simps) (simp add: Let_def same)
next
  case (Some b)
  with assms show ?thesis
    by (subst request_loop.simps) (simp add: Let_def drained_def split: seek_cap.splits)
qed

lemma request_loop_response:
  assumes "http_NewRequest E (verb r) (URL E r) = None"
      and "T (length sent) (build_request E r) = Inr resp"
  shows "request_loop E T r retries sent =
     (if snd (checkWait E resp) \<and> Suc retries < maxRetries
      then (case body r of
              None \<Rightarrow> request_loop E T r (Suc retries) (sent @ [build_request E r])
            | Some b \<Rightarrow>
                (case seek b of
                   NoSeeker \<Rightarrow> request_loop E T (r\<lparr>body := Some (drained b)\<rparr>) (Suc retries)
                                 (sent @ [build_request E r])
                 | SeekOk \<Rightarrow> request_loop E T (r\<lparr>body := Some (b\<lparr>pos := 0\<rparr>)\<rparr>) (Suc retries)
                               (sent @ [build_request E r])
                 | SeekFails e \<Rightarrow> (sent @ [build_request E r], Inr (build_request E r, resp))))
      else (sent @ [build_request E r], Inr (build_request E r, resp)))"
  by (rule request_loop_step [where T = T, OF assms(1)]) (simp add: assms(2))

text \<open>One pass through the loop body when the transport's error is fatal.\<close>

lemma request_loop_error:
  assumes "http_NewRequest E (verb r) (URL E r) = None"
      and "T (length sent) (build_request E r) = Inl e"
      and "\<not> IsConnectionReset e \<or> verb r \<noteq> ''GET''"
  shows "request_loop E T r retries sent = (sent @ [build_request E r], Inl e)"
  using assms by (subst request_loop.simps) (simp add: Let_def)

text \<open>The loop asks the transport only for calls from \<open>length sent\<close> on.\<close>

lemma request_loop_transport_cong:
  "(\<And>i req. length sent \<le> i \<Longrightarrow> T i req = T' i req) \<Longrightarrow>
     request_loop E T r retries sent = request_loop E T' r retries sent"
proof (induction "maxRetries - retries" arbitrary: r retries sent rule: less_induct)
  case less
  have here: "T (length sent) (build_request E r) = T' (length sent) (build_request E r)"
    by (rule less.prems) simp
  have later: "\<And>r'. Suc retries < maxRetries \<Longrightarrow>
      request_loop E T r' (Suc retries) (sent @ [build_request E r])
      = request_loop E T' r' (Suc retries) (sent @ [build_request E r])"
  proof -
    fix r' assume "Suc retries < maxRetries"
    then have "maxRetries - Suc retries < maxRetries - retries" by simp
    then show "request_loop E T r' (Suc retries) (sent @ [build_request E r])
      = request_loop E T' r' (Suc retries) (sent @ [build_request E r])"
      by (rule less.hyps) (simp add: less.prems)
  qed
  show ?case
    by (subst request_loop.simps, subst (2) request_loop.simps)
       (simp add: here later Let_def split: option.splits sum.splits seek_cap.splits)
qed

text \<open>
  A transport that always answers with a wait candidate, and a body whose rewinding never
  fails: the loop runs until the counter reaches the cap.
\<close>

lemma always_retryable_runs_to_cap:
  assumes srv: "\<And>i req. \<exists>resp. T i req = Inr resp \<and> snd (checkWait E resp)"
  shows "http_NewRequest E (verb r) (URL E r) = None \<Longrightarrow>
         (\<And>b e. body r = Some b \<Longrightarrow> seek b \<noteq> SeekFails e) \<Longrightarrow>
         retries < maxRetries \<Longrightarrow>
         \<exists>sent' resp. request_loop E T r retries sent = (sent', Inr (last sent', resp))
            \<and> length sent' = length sent + (maxRetries - retries)
            \<and> T (length sent' - 1) (last sent') = Inr resp"
proof (induction "maxRetries - retries" arbitrary: r retries sent rule: less_induct)
  case less
  let ?req = "build_request E r"
  from srv obtain resp where resp: "T (length sent) ?req = Inr resp"
    and wait: "snd (checkWait E resp)" by blast
  note step = request_loop_response
      [where T = T and sent = sent and retries = retries, OF less.prems(1) resp]
  show ?case
  proof (cases "Suc retries < maxRetries")
    case False
    with less.prems(3) have "maxRetries - retries = 1" by simp
    with False resp show ?thesis by (simp add: step)
  next
    case True
    then have smaller: "maxRetries - Suc retries < maxRetries - retries" by simp
    have len: "\<And>n. n = length (sent @ [?req]) + (maxRetries - Suc retries)
                 \<Longrightarrow> n = length sent + (maxRetries - retries)"
      using True by simp
    have rec: "\<And>r'. verb r' = verb r \<Longrightarrow> URL E r' = URL E r \<Longrightarrow>
        (\<And>b e. body r' = Some b \<Longrightarrow> seek b \<noteq> SeekFails e) \<Longrightarrow>
        \<exists>sent' resp'. request_loop E T r' (Suc retries) (sent @ [?req])
              = (sent', Inr (last sent', resp'))
           \<and> length sent' = length sent + (maxRetries - retries)
           \<and> T (length sent' - 1) (last sent') = Inr resp'"
    proof -
      fix r' assume v: "verb r' = verb r" and u: "URL E r' = URL E r"
        and s: "\<And>b e. body r' = Some b \<Longrightarrow> seek b \<noteq> SeekFails e"
      have b: "http_NewRequest E (verb r') (URL E r') = None"
        using less.prems(1) by (simp add: v u)
      from less.hyps [OF smaller b s True, of "sent @ [?req]"]
      obtain sent' resp' where
        "request_loop E T r' (Suc retries) (sent @ [?req]) = (sent', Inr (last sent', resp'))"
        "length sent' = length (sent @ [?req]) + (maxRetries - Suc retries)"
        "T (length sent' - 1) (last sent') = Inr resp'"
        by blast
      then show "\<exists>sent' resp'. request_loop E T r' (Suc retries) (sent @ [?req])
              = (sent', Inr (last sent', resp'))
           \<and> length sent' = length sent + (maxRetries - retries)
           \<and> T (length sent' - 1) (last sent') = Inr resp'"
        using len by blast
    qed
    show ?thesis
    proof (cases "body r")
      case None
      have "\<exists>sent' resp'. request_loop E T r (Suc retries) (sent @ [?req])
              = (sent', Inr (last sent', resp'))
           \<and> length sent' = length sent + (maxRetries - retries)
           \<and> T (length sent' - 1) (last sent') = Inr resp'"
        by (rule rec) (simp_all add: less.prems(2))
      with None True wait show ?thesis by (simp add: step)
    next
      case (Some b)
      show ?thesis
      proof (cases "seek b")
        case NoSeeker
        have "\<exists>sent' resp'. request_loop E T (r\<lparr>body := Some (drained b)\<rparr>) (Suc retries)
                (sent @ [?req]) = (sent', Inr (last sent', resp'))
           \<and> length sent' = length sent + (maxRetries - retries)
           \<and> T (length sent' - 1) (last sent') = Inr resp'"
          by (rule rec) (auto simp: drained_def NoSeeker)
        with Some NoSeeker True wait show ?thesis by (simp add: step)
      next
        case SeekOk
        have "\<exists>sent' resp'. request_loop E T (r\<lparr>body := Some (b\<lparr>pos := 0\<rparr>)\<rparr>) (Suc retries)
                (sent @ [?req]) = (sent', Inr (last sent', resp'))
           \<and> length sent' = length sent + (maxRetries - retries)
           \<and> T (length sent' - 1) (last sent') = Inr resp'"
          by (rule rec) (auto simp: SeekOk)
        with Some SeekOk True wait show ?thesis by (simp add: step)
      next
        case (SeekFails e)
        with Some less.prems(2) show ?thesis by blast
      qed
    qed
  qed
qed

text \<open>
  Claim C2. Against a transport that answers every call with status 503 and a parseable
  \<open>Retry-After\<close>, for a request without recorded error that can be built and whose body
  rewinds, \<open>Do\<close> sends exactly 10 requests and returns the classification of the response
  to the tenth.
\<close>

theorem C2_ten_attempts_then_tenth_response:
  assumes "err r = None"
      and "http_NewRequest E (verb r) (URL E r) = None"
      and "\<forall>i req. \<exists>resp. T i req = Inr resp \<and> resp_StatusCode resp = 503
                       \<and> snd (retryAfterSeconds E resp)"
      and "body r = Some b" and "seek b = SeekOk"
  shows "\<exists>sent resp. request E T r = (sent, Inr (sent ! 9, resp))
            \<and> length sent = 10
            \<and> T 9 (sent ! 9) = Inr resp
            \<and> Do E T r = transformResponse E resp (sent ! 9)"
proof -
  have srv: "\<And>i req. \<exists>resp. T i req = Inr resp \<and> snd (checkWait E resp)"
    using assms(3) checkWait_503 by blast
  have sk: "\<And>b' e. body r = Some b' \<Longrightarrow> seek b' \<noteq> SeekFails e"
    using assms(4,5) by auto
  have "0 < maxRetries" by (simp add: maxRetries_def)
  from always_retryable_runs_to_cap [of T E r 0 "[]", OF srv assms(2) sk this]
  obtain sent resp where run: "request_loop E T r 0 [] = (sent, Inr (last sent, resp))"
    and len: "length sent = maxRetries" and tenth: "T (length sent - 1) (last sent) = Inr resp"
    by auto
  from len have l10: "length sent = 10" by (simp add: maxRetries_def)
  then have "sent \<noteq> []" by auto
  then have lst: "last sent = sent ! 9" using l10 by (simp add: last_conv_nth)
  have req: "request E T r = (sent, Inr (sent ! 9, resp))"
    using assms(1) run lst by (simp add: request_def)
  have "Do E T r = transformResponse E resp (sent ! 9)"
    by (simp add: Do_def req)
  with req l10 tenth lst show ?thesis by auto
qed

theorem C2_witness:
  "length (fst (request std always_busy
       (Body std (Bytes ''x'') (NewRequest std ''www.example.com'' ''post'')))) = 10
   \<and> statusCode (Do std always_busy
       (Body std (Bytes ''x'') (NewRequest std ''www.example.com'' ''post''))) = 503"
proof -
  let ?r = "Body std (Bytes ''x'') (NewRequest std ''www.example.com'' ''post'')"
  have h1: "err ?r = None" by code_simp
  have h2: "http_NewRequest std (verb ?r) (URL std ?r) = None" by code_simp
  have ra: "snd (retryAfterSeconds std resp_busy)" by code_simp
  have h3: "\<forall>i req. \<exists>resp. always_busy i req = Inr resp \<and> resp_StatusCode resp = 503
                       \<and> snd (retryAfterSeconds std resp)"
    using ra by (simp add: always_busy_def resp_busy_def)
  have h4: "body ?r = Some (bytes_NewReader ''x'')" by code_simp
  have h5: "seek (bytes_NewReader ''x'') = SeekOk" by (simp add: bytes_NewReader_def)
  from C2_ten_attempts_then_tenth_response [OF h1 h2 h3 h4 h5]
  obtain sent resp where req: "request std always_busy ?r = (sent, Inr (sent ! 9, resp))"
    and len: "length sent = 10" and tenth: "always_busy 9 (sent ! 9) = Inr resp"
    and d: "Do std always_busy ?r = transformResponse std resp (sent ! 9)"
    by blast
  from tenth have "resp = resp_busy" by (simp add: always_busy_def)
  then have "statusCode (Do std always_busy ?r) = 503"
    by (simp add: d resp_busy_def transformResponse_def Let_def StatusOK_def
          StatusPartialContent_def StatusSwitchingProtocols_def)
  with req len show ?thesis by simp
qed

text \<open>
  Claim C3, as the code has it. Take a response that is a wait candidate while the counter
  is below the cap. If the body reader implements seeking and seeking back to the start
  fails, the loop stops and hands this response to the callback. If there is no body, or
  the body reader does not implement seeking, the loop goes on: the request is sent again,
  without rewinding. If seeking succeeds the request is sent again from the start of the
  body.
\<close>

theorem C3_failed_seek_stops_retrying:
  assumes "http_NewRequest E (verb r) (URL E r) = None"
      and "T (length sent) (build_request E r) = Inr resp"
      and "snd (checkWait E resp)" and "Suc retries < maxRetries"
  shows "(body r = Some b \<and> seek b = SeekFails e \<longrightarrow>
            request_loop E T r retries sent
              = (sent @ [build_request E r], Inr (build_request E r, resp)))
       \<and> (body r = None \<longrightarrow>
            request_loop E T r retries sent
              = request_loop E T r (Suc retries) (sent @ [build_request E r]))
       \<and> (body r = Some b \<and> seek b = NoSeeker \<longrightarrow>
            request_loop E T r retries sent
              = request_loop E T (r\<lparr>body := Some (drained b)\<rparr>) (Suc retries)
                  (sent @ [build_request E r]))
       \<and> (body r = Some b \<and> seek b = SeekOk \<longrightarrow>
            request_loop E T r retries sent
              = request_loop E T (r\<lparr>body := Some (b\<lparr>pos := 0\<rparr>)\<rparr>) (Suc retries)
                  (sent @ [build_request E r]))"
  using assms(3,4)
  by (simp add: request_loop_response
        [where T = T and sent = sent and retries = retries, OF assms(1,2)])

theorem C3_witness:
  "request std busy_then_ok
       (Body std (Reader \<lparr>data = ''abc'', pos = 0, seek = SeekFails (OtherError ''seek'')\<rparr>)
          (NewRequest std ''www.example.com'' ''post''))
     = ([build_request std
           (Body std (Reader \<lparr>data = ''abc'', pos = 0, seek = SeekFails (OtherError ''seek'')\<rparr>)
              (NewRequest std ''www.example.com'' ''post''))],
        Inr (build_request std
           (Body std (Reader \<lparr>data = ''abc'', pos = 0, seek = SeekFails (OtherError ''seek'')\<rparr>)
              (NewRequest std ''www.example.com'' ''post'')),
             resp_busy))"
proof -
  let ?b = "\<lparr>data = ''abc'', pos = 0, seek = SeekFails (OtherError ''seek'')\<rparr>"
  let ?r = "Body std (Reader ?b) (NewRequest std ''www.example.com'' ''post'')"
  have h0: "err ?r = None" by code_simp
  have h1: "http_NewRequest std (verb ?r) (URL std ?r) = None" by code_simp
  have h2: "busy_then_ok (length ([] :: http_Request list)) (build_request std ?r) = Inr resp_busy"
    by (simp add: busy_then_ok_def)
  have h3: "snd (checkWait std resp_busy)" by code_simp
  have h4: "Suc 0 < maxRetries" by (simp add: maxRetries_def)
  have h5: "body ?r = Some ?b" by code_simp
  have "request_loop std busy_then_ok ?r 0 []
          = ([] @ [build_request std ?r], Inr (build_request std ?r, resp_busy))"
    using C3_failed_seek_stops_retrying
            [where T = busy_then_ok and sent = "[]" and b = ?b and e = "OtherError ''seek''",
             OF h1 h2 h3 h4] h5
    by simp
  then show ?thesis by (simp add: request_def h0)
qed

text \<open>
  The claim as the specification words it fails for a body reader that does not implement
  seeking: the 503 response is retried, two requests are sent and the caller gets the
  second response.
\<close>

theorem C3_counterexample:
  "length (fst (request std busy_then_ok
       (Body std (Reader \<lparr>data = ''abc'', pos = 0, seek = NoSeeker\<rparr>)
          (NewRequest std ''www.example.com'' ''post'')))) = 2
   \<and> snd (request std busy_then_ok
       (Body std (Reader \<lparr>data = ''abc'', pos = 0, seek = NoSeeker\<rparr>)
          (NewRequest std ''www.example.com'' ''post'')))
     = Inr (build_request std
              (Body std (Reader \<lparr>data = ''abc'', pos = 3, seek = NoSeeker\<rparr>)
                 (NewRequest std ''www.example.com'' ''post'')), resp_ok)
   \<and> statusCode (Do std busy_then_ok
       (Body std (Reader \<lparr>data = ''abc'', pos = 0, seek = NoSeeker\<rparr>)
          (NewRequest std ''www.example.com'' ''post''))) = 200"
  by code_simp

text \<open>
  Claim C4. When the transport fails with an error: if \<open>IsConnectionReset\<close> holds of it
  and the verb is GET, the loop behaves as if the transport had answered this call with
  the placeholder (status 500, header \<open>Retry-After: 1\<close>); for any other verb or error
  the loop ends at once with that error.
\<close>

theorem C4_connection_reset_on_GET_only:
  assumes "http_NewRequest E (verb r) (URL E r) = None"
      and "T (length sent) (build_request E r) = Inl e"
  shows "(IsConnectionReset e \<and> verb r = ''GET'' \<longrightarrow>
            request_loop E T r retries sent
              = request_loop E (T(length sent := (\<lambda>req. Inr placeholder))) r retries sent)
       \<and> (\<not> (IsConnectionReset e \<and> verb r = ''GET'') \<longrightarrow>
            request_loop E T r retries sent = (sent @ [build_request E r], Inl e))
       \<and> resp_StatusCode placeholder = 500
       \<and> resp_Header placeholder = [(''Retry-After'', [''1''])]"
proof -
  let ?T' = "T(length sent := (\<lambda>req. Inr placeholder))"
  let ?req = "build_request E r"
  have fatal: "\<not> (IsConnectionReset e \<and> verb r = ''GET'') \<longrightarrow>
            request_loop E T r retries sent = (sent @ [?req], Inl e)"
    using request_loop_error [where T = T and sent = sent and retries = retries, OF assms]
    by blast
  have retried: "IsConnectionReset e \<and> verb r = ''GET'' \<longrightarrow>
            request_loop E T r retries sent = request_loop E ?T' r retries sent"
  proof
    assume reset: "IsConnectionReset e \<and> verb r = ''GET''"
    have later: "\<And>r' n. request_loop E T r' n (sent @ [?req])
                         = request_loop E ?T' r' n (sent @ [?req])"
      by (rule request_loop_transport_cong) simp
    have l: "request_loop E T r retries sent =
       (if snd (checkWait E placeholder) \<and> Suc retries < maxRetries
        then (case body r of
                None \<Rightarrow> request_loop E T r (Suc retries) (sent @ [?req])
              | Some b \<Rightarrow>
                  (case seek b of
                     NoSeeker \<Rightarrow> request_loop E T (r\<lparr>body := Some (drained b)\<rparr>) (Suc retries)
                                   (sent @ [?req])
                   | SeekOk \<Rightarrow> request_loop E T (r\<lparr>body := Some (b\<lparr>pos := 0\<rparr>)\<rparr>) (Suc retries)
                                 (sent @ [?req])
                   | SeekFails e \<Rightarrow> (sent @ [?req], Inr (?req, placeholder))))
        else (sent @ [?req], Inr (?req, placeholder)))"
      by (rule request_loop_step [where T = T, OF assms(1)]) (simp add: assms(2) reset)
    have r: "request_loop E ?T' r retries sent =
       (if snd (checkWait E placeholder) \<and> Suc retries < maxRetries
        then (case body r of
                None \<Rightarrow> request_loop E ?T' r (Suc retries) (sent @ [?req])
              | Some b \<Rightarrow>
                  (case seek b of
                     NoSeeker \<Rightarrow> request_loop E ?T' (r\<lparr>body := Some (drained b)\<rparr>) (Suc retries)
                                   (sent @ [?req])
                   | SeekOk \<Rightarrow> request_loop E ?T' (r\<lparr>body := Some (b\<lparr>pos := 0\<rparr>)\<rparr>) (Suc retries)
                                 (sent @ [?req])
                   | SeekFails e \<Rightarrow> (sent @ [?req], Inr (?req, placeholder))))
        else (sent @ [?req], Inr (?req, placeholder)))"
      by (rule request_loop_step [where T = ?T', OF assms(1)]) simp
    show "request_loop E T r retries sent = request_loop E ?T' r retries sent"
      by (simp only: l r later)
  qed
  from fatal retried show ?thesis by (simp add: placeholder_def)
qed

theorem C4_witness:
  "IsConnectionReset reset_error
   \<and> length (fst (request std reset_then_ok (NewRequest std ''www.example.com'' ''get''))) = 2
   \<and> snd (request std reset_then_ok (NewRequest std ''www.example.com'' ''get''))
     = Inr (build_request std (NewRequest std ''www.example.com'' ''get''), resp_ok)
   \<and> request std reset_then_ok (NewRequest std ''www.example.com'' ''post'')
     = ([build_request std (NewRequest std ''www.example.com'' ''post'')], Inl reset_error)"
proof -
  let ?g = "NewRequest std ''www.example.com'' ''get''"
  let ?p = "NewRequest std ''www.example.com'' ''post''"
  let ?T' = "reset_then_ok(length ([] :: http_Request list) := (\<lambda>req. Inr placeholder))"
  have reset: "IsConnectionReset reset_error"
    by (simp add: IsConnectionReset_def reset_error_def)
  have g0: "err ?g = None" and p0: "err ?p = None" by code_simp+
  have g1: "http_NewRequest std (verb ?g) (URL std ?g) = None" by code_simp
  have p1: "http_NewRequest std (verb ?p) (URL std ?p) = None" by code_simp
  have gv: "verb ?g = ''GET''" and pv: "verb ?p \<noteq> ''GET''" by code_simp+
  have g2: "reset_then_ok (length ([] :: http_Request list)) (build_request std ?g)
              = Inl reset_error"
    by (simp add: reset_then_ok_def)
  have p2: "reset_then_ok (length ([] :: http_Request list)) (build_request std ?p)
              = Inl reset_error"
    by (simp add: reset_then_ok_def)
  have "request_loop std reset_then_ok ?g 0 [] = request_loop std ?T' ?g 0 []"
    using C4_connection_reset_on_GET_only
            [where T = reset_then_ok and sent = "[]" and retries = 0, OF g1 g2] reset gv
    by blast
  moreover have "length (fst (request_loop std ?T' ?g 0 [])) = 2"
    by code_simp
  moreover have "snd (request_loop std ?T' ?g 0 []) = Inr (build_request std ?g, resp_ok)"
    by code_simp
  ultimately have a: "length (fst (request std reset_then_ok ?g)) = 2
      \<and> snd (request std reset_then_ok ?g) = Inr (build_request std ?g, resp_ok)"
    by (simp add: request_def g0)
  have "request_loop std reset_then_ok ?p 0 [] = ([] @ [build_request std ?p], Inl reset_error)"
    using C4_connection_reset_on_GET_only
            [where T = reset_then_ok and sent = "[]" and retries = 0, OF p1 p2] pv
    by blast
  then have b: "request std reset_then_ok ?p = ([build_request std ?p], Inl reset_error)"
    by (simp add: request_def p0)
  from reset a b show ?thesis by simp
qed

end
